theory Spec2Isabelle
  imports Complex_Main "HOL-Library.Word" "HOL-Library.Sublist"
begin

section \<open>JavaScript values\<close>

text \<open>
  A JavaScript string is a sequence of UTF-16 code units. String literals of the
  source that are plain ASCII are written \<open>js ''...''\<close>; the Chinese messages are
  written out as their code units.
\<close>

type_synonym jsstring = "16 word list"

definition js :: "string \<Rightarrow> jsstring" where
  "js s = map (\<lambda>c. word_of_nat (of_char c)) s"

text \<open>
  A number is a finite double (embedded in the reals: the code only compares numbers
  and stores the literal 4), NaN or an infinity.
\<close>

datatype jsnum = NaN | Fin real | PosInf | NegInf

datatype jsval =
    JUndefined
  | JNull
  | JBool bool
  | JNum jsnum
  | JStr jsstring
  | JArr "jsval list"
  | JObj "(jsstring \<times> jsval) list"

text \<open>\<open>Record<string, any>\<close>: the parameter bag.\<close>

type_synonym bag = "jsstring \<rightharpoonup> jsval"

text \<open>Reading a property of a bag: \<open>undefined\<close> when the key is absent.\<close>

definition prop_of :: "bag \<Rightarrow> jsstring \<Rightarrow> jsval" where
  "prop_of params k = (case params k of None \<Rightarrow> JUndefined | Some v \<Rightarrow> v)"

text \<open>ToBoolean.\<close>

fun truthy :: "jsval \<Rightarrow> bool" where
  "truthy JUndefined = False"
| "truthy JNull = False"
| "truthy (JBool b) = b"
| "truthy (JNum NaN) = False"
| "truthy (JNum (Fin x)) = (x \<noteq> 0)"
| "truthy (JNum PosInf) = True"
| "truthy (JNum NegInf) = True"
| "truthy (JStr s) = (s \<noteq> [])"
| "truthy (JArr xs) = True"
| "truthy (JObj ps) = True"

text \<open>
  ToNumber. On strings, arrays and objects it is ECMAScript's StringToNumber (after
  ToPrimitive), which is taken as the parameter \<open>conv\<close>.
\<close>

fun ToNumber :: "(jsval \<Rightarrow> jsnum) \<Rightarrow> jsval \<Rightarrow> jsnum" where
  "ToNumber conv JUndefined = NaN"
| "ToNumber conv JNull = Fin 0"
| "ToNumber conv (JBool b) = Fin (if b then 1 else 0)"
| "ToNumber conv (JNum x) = x"
| "ToNumber conv (JStr s) = conv (JStr s)"
| "ToNumber conv (JArr xs) = conv (JArr xs)"
| "ToNumber conv (JObj ps) = conv (JObj ps)"

text \<open>\<open>x < y\<close> on numbers: false as soon as one side is NaN.\<close>

fun num_less :: "jsnum \<Rightarrow> jsnum \<Rightarrow> bool" where
  "num_less NaN y = False"
| "num_less x NaN = False"
| "num_less (Fin x) (Fin y) = (x < y)"
| "num_less (Fin x) PosInf = True"
| "num_less (Fin x) NegInf = False"
| "num_less PosInf y = False"
| "num_less NegInf NegInf = False"
| "num_less NegInf y = True"

text \<open>\<open>v > n\<close> for a value \<open>v\<close> and a number literal \<open>n\<close>.\<close>

definition js_greater :: "(jsval \<Rightarrow> jsnum) \<Rightarrow> jsval \<Rightarrow> real \<Rightarrow> bool" where
  "js_greater conv v n = num_less (Fin n) (ToNumber conv v)"

section \<open>ImageGenerator.vue: ensureValidNumImages\<close>

text \<open>
  \<^verbatim>\<open>if (params.num_images && params.num_images > 4) { params.num_images = 4; }
  return params;\<close>
\<close>

definition ensureValidNumImages :: "(jsval \<Rightarrow> jsnum) \<Rightarrow> bag \<Rightarrow> bag" where
  "ensureValidNumImages conv params =
     (if truthy (prop_of params (js ''num_images'')) \<and>
         js_greater conv (prop_of params (js ''num_images'')) 4
      then params(js ''num_images'' \<mapsto> JNum (Fin 4))
      else params)"


section \<open>Strings\<close>

text \<open>\<open>s.includes(t)\<close>: \<open>t\<close> occurs in \<open>s\<close> as a contiguous run of code units.\<close>

fun includes_str :: "jsstring \<Rightarrow> jsstring \<Rightarrow> bool" where
  "includes_str [] t = (t = [])"
| "includes_str (c # s) t = (prefix t (c # s) \<or> includes_str s t)"

text \<open>
  The code units \<open>String.prototype.trim\<close> strips: ECMAScript's WhiteSpace and
  LineTerminator.
\<close>

definition is_js_whitespace :: "16 word \<Rightarrow> bool" where
  "is_js_whitespace c =
     (c \<in> set [0x9, 0xA, 0xB, 0xC, 0xD, 0x20, 0xA0, 0x1680, 0x2028, 0x2029, 0x202F,
                0x205F, 0x3000, 0xFEFF]
      \<or> (0x2000 \<le> c \<and> c \<le> 0x200A))"

definition js_trim :: "jsstring \<Rightarrow> jsstring" where
  "js_trim s = rev (dropWhile is_js_whitespace (rev (dropWhile is_js_whitespace s)))"

section \<open>Exceptions\<close>

text \<open>
  A thrown value, as far as the two catch blocks look at it. \<open>Nullish\<close> is
  \<open>undefined\<close> or \<open>null\<close>; \<open>Primitive\<close> is any other value that is not an
  object. Of an object the handlers read whether it is an \<open>instanceof Error\<close>, and
  the properties \<open>status\<close>, \<open>body\<close> and \<open>message\<close>, each present or not. The
  source casts the caught value to \<open>{ status: number; body: any; message: string }\<close>:
  a message is a string.
\<close>

datatype thrown =
    Nullish
  | Primitive
  | ErrorObject (instanceof_Error: bool) (status_of: "jsval option")
      (body_of: "jsval option") (own_message: "jsstring option")

text \<open>
  \<open>'message' in error\<close> and \<open>error.message\<close> follow the prototype chain:
  \<open>Error.prototype.message\<close> is the empty string.
\<close>

fun message_of :: "thrown \<Rightarrow> jsstring option" where
  "message_of (ErrorObject is_err st bd (Some m)) = Some m"
| "message_of (ErrorObject is_err st bd None) = (if is_err then Some [] else None)"
| "message_of Nullish = None"
| "message_of Primitive = None"

text \<open>\<open>new Error(msg)\<close>.\<close>

definition new_Error :: "jsstring \<Rightarrow> thrown" where
  "new_Error msg = ErrorObject True None None (Some msg)"

text \<open>
  What leaves a function as an exception: a TypeError raised by the engine (reading a
  property of \<open>undefined\<close>, calling what is not a function), or a thrown value.
\<close>

datatype exn = TypeError | Thrown thrown

section \<open>Property reads\<close>

text \<open>
  \<open>v.k\<close> for a value \<open>v\<close> that is neither \<open>undefined\<close> nor \<open>null\<close> and a key
  \<open>k\<close> that no built-in prototype defines (\<open>detail\<close>, \<open>images\<close>, \<open>seed\<close>,
  \<open>path\<close>, ...): the object's property, \<open>undefined\<close> on every other value.
\<close>

fun get_prop :: "jsval \<Rightarrow> jsstring \<Rightarrow> jsval" where
  "get_prop (JObj ps) k = (case map_of ps k of None \<Rightarrow> JUndefined | Some v \<Rightarrow> v)"
| "get_prop v k = JUndefined"

text \<open>\<open>v?.k\<close>: as \<open>v.k\<close>; get_prop already yields \<open>undefined\<close> on a nullish \<open>v\<close>.\<close>

definition optional_prop :: "jsval \<Rightarrow> jsstring \<Rightarrow> jsval" where
  "optional_prop v k = get_prop v k"

text \<open>\<open>v.k\<close> where \<open>v\<close> may be nullish: the read throws a TypeError then.\<close>

fun read_prop :: "jsval \<Rightarrow> jsstring \<Rightarrow> exn + jsval" where
  "read_prop JUndefined k = Inl TypeError"
| "read_prop JNull k = Inl TypeError"
| "read_prop v k = Inr (get_prop v k)"

text \<open>\<open>v.length\<close> for a truthy \<open>v\<close>.\<close>

fun js_length :: "jsval \<Rightarrow> jsval" where
  "js_length (JArr xs) = JNum (Fin (real (length xs)))"
| "js_length (JStr s) = JNum (Fin (real (length s)))"
| "js_length v = get_prop v (js ''length'')"

text \<open>\<open>a || b\<close>.\<close>

definition js_or :: "jsval \<Rightarrow> jsval \<Rightarrow> jsval" where
  "js_or a b = (if truthy a then a else b)"

text \<open>
  \<open>v.includes(t)\<close> for a truthy \<open>v\<close> of any type and a string \<open>t\<close>: the substring
  test on a string, membership on an array, and a TypeError on every other value
  (\<open>includes\<close> is not a function there).
\<close>

fun js_includes :: "jsval \<Rightarrow> jsstring \<Rightarrow> exn + bool" where
  "js_includes (JStr s) t = Inr (includes_str s t)"
| "js_includes (JArr xs) t = Inr (JStr t \<in> set xs)"
| "js_includes v t = Inl TypeError"


section \<open>generate-image: generateImage\<close>

text \<open>Of a \<open>Model\<close> the code reads \<open>id\<close> and \<open>name\<close>.\<close>

record Model =
  model_id :: jsstring
  model_name :: jsstring

text \<open>What \<open>fal.subscribe\<close> resolves to: \<open>{ data, requestId }\<close>.\<close>

record api_result =
  data :: jsval
  requestId :: jsval

datatype GenerateImageResponse =
    Success (images: jsval) (seed: jsval) (request_id: jsval) (timings: jsval)
      (has_nsfw_concepts: jsval)
  | Failure (error: jsstring) (errorCode: "jsstring option")

text \<open>
  What the function calls and does not define. \<open>'w\<close> is the state of the world
  behind the outbound call, \<open>'s\<close> the state of \<open>localStorage\<close>.
  \<^item> \<open>subscribe w id input key\<close>: \<open>fal.config({credentials: key})\<close> followed by
    \<open>await fal.subscribe(id, {input, ...})\<close>; it resolves or rejects.
  \<^item> \<open>handleBalanceExhaustedError\<close>: imported from \<open>api-key-manager\<close>; the code
    reads its result as a truth value.
  \<^item> \<open>getItem_active_key\<close>: \<open>localStorage.getItem("fal-ai-active-key")\<close>, \<open>None\<close>
    for \<open>null\<close>.
  \<^item> \<open>JSON_parse\<close>: \<open>JSON.parse\<close>, \<open>None\<close> when it throws.

  \<open>handleBalanceExhaustedError\<close> and \<open>getItem\<close> are taken to return: an exception
  of theirs is not modelled.
\<close>

record ('w, 's) env =
  subscribe :: "'w \<Rightarrow> jsstring \<Rightarrow> bag \<Rightarrow> jsstring \<Rightarrow> (thrown + api_result) \<times> 'w"
  handleBalanceExhaustedError :: "'s \<Rightarrow> bool \<times> 's"
  getItem_active_key :: "'s \<Rightarrow> jsstring option"
  JSON_parse :: "jsstring \<Rightarrow> jsval option"

text \<open>The messages of the source, as code units.\<close>

definition msg_missing_key :: jsstring where
  "msg_missing_key = [0x8BF7, 0x5148, 0x8BBE, 0x7F6E, 0x60A8, 0x7684, 0x46, 0x41, 0x4C,
     0x2E, 0x41, 0x49, 0x20, 0x41, 0x50, 0x49, 0x5BC6, 0x94A5]"

definition msg_no_images :: jsstring where
  "msg_no_images = [0x672A, 0x751F, 0x6210, 0x56FE, 0x50CF]"

definition msg_all_keys_exhausted :: jsstring where
  "msg_all_keys_exhausted = [0x6240, 0x6709, 0x41, 0x50, 0x49, 0x5BC6, 0x94A5, 0x4F59,
     0x989D, 0x4E0D, 0x8DB3, 0xFF0C, 0x8BF7, 0x6DFB, 0x52A0, 0x65B0, 0x7684, 0x41, 0x50,
     0x49, 0x5BC6, 0x94A5, 0x6216, 0x5145, 0x503C]"

definition msg_generation_failed :: jsstring where
  "msg_generation_failed = [0x751F, 0x6210, 0x56FE, 0x50CF, 0x5931, 0x8D25]"

text \<open>
  Lines 10-13, before the \<open>try\<close>: the log entry evaluates
  \<open>input.prompt?.substring(0, 50) + '...'\<close>. On \<open>undefined\<close>, \<open>null\<close> and a string
  this is a string; on any other value \<open>substring\<close> is not a function.
\<close>

fun prompt_log :: "jsval \<Rightarrow> exn option" where
  "prompt_log JUndefined = None"
| "prompt_log JNull = None"
| "prompt_log (JStr s) = None"
| "prompt_log v = Some TypeError"

text \<open>
  Lines 15-65, the \<open>try\<close> block: what it returns (\<open>Inr\<close>) or throws into the
  \<open>catch\<close> (\<open>Inl\<close>).
\<close>

definition try_block ::
  "('w, 's) env \<Rightarrow> 'w \<Rightarrow> Model \<Rightarrow> bag \<Rightarrow> jsstring \<Rightarrow> (thrown + GenerateImageResponse) \<times> 'w"
where
  "try_block env w model input apiKey =
     (if apiKey = [] then (Inl (new_Error msg_missing_key), w)
      else
        (case subscribe env w (model_id model) input apiKey of
          (Inl e, w') \<Rightarrow> (Inl e, w')
        | (Inr result, w') \<Rightarrow>
            (let imgs = optional_prop (data result) (js ''images'') in
             if \<not> truthy imgs \<or> js_length imgs = JNum (Fin 0)
             then (Inl (new_Error msg_no_images), w')
             else
               (Inr (Success imgs
                  (optional_prop (data result) (js ''seed''))
                  (requestId result)
                  (js_or (optional_prop (data result) (js ''timings'')) (JObj []))
                  (js_or (optional_prop (data result) (js ''has_nsfw_concepts'')) (JArr []))),
                w'))))"

text \<open>The vendor's fragment.\<close>

definition exhausted_balance :: jsstring where
  "exhausted_balance = js ''Exhausted balance''"

text \<open>
  Lines 73-81: \<open>'status' in error && 'body' in error\<close>, \<open>status === 403\<close>, and
  \<open>body && body.detail && typeof body.detail === 'string' &&
  body.detail.includes('Exhausted balance')\<close>.
\<close>

fun signal_body :: "thrown \<Rightarrow> bool" where
  "signal_body (ErrorObject is_err (Some status) (Some body) msg) =
     (status = JNum (Fin 403) \<and> truthy body \<and> truthy (get_prop body (js ''detail'')) \<and>
      (case get_prop body (js ''detail'') of
         JStr d \<Rightarrow> includes_str d exhausted_balance
       | _ \<Rightarrow> False))"
| "signal_body e = False"

text \<open>
  Lines 103-105: \<open>'message' in error\<close> and
  \<open>message.includes('403') && message.includes('Exhausted balance')\<close>.
\<close>

definition signal_message :: "thrown \<Rightarrow> bool" where
  "signal_message e =
     (case message_of e of
        None \<Rightarrow> False
      | Some m \<Rightarrow> includes_str m (js ''403'') \<and> includes_str m exhausted_balance)"

text \<open>
  \<open>errorMessage.match(/\{.*\}/s)\<close>: the leftmost match of a greedy pattern whose dot
  matches every code unit. It starts at the first \<open>{\<close> and ends at the last \<open>}\<close>
  behind it; there is none when no \<open>}\<close> follows the first \<open>{\<close>.
\<close>

definition match_braces :: "jsstring \<Rightarrow> jsstring option" where
  "match_braces s =
     (case dropWhile (\<lambda>c. c \<noteq> 0x7B) s of
        [] \<Rightarrow> None
      | c # t \<Rightarrow>
          if 0x7D \<in> set t then Some (c # rev (dropWhile (\<lambda>c. c \<noteq> 0x7D) (rev t)))
          else None)"

text \<open>
  Lines 123-146, in a \<open>try\<close> of their own whose \<open>catch\<close> only logs:
  \<open>JSON.parse(errorMatch[0])\<close>, then
  \<open>errorJson.detail && errorJson.detail.includes('Exhausted balance')\<close>.
\<close>

definition signal_json :: "('w, 's) env \<Rightarrow> thrown \<Rightarrow> bool" where
  "signal_json env e =
     (case message_of e of
        None \<Rightarrow> False
      | Some m \<Rightarrow>
          (case match_braces m of
             None \<Rightarrow> False
           | Some txt \<Rightarrow>
               (case JSON_parse env txt of
                  None \<Rightarrow> False
                | Some errorJson \<Rightarrow>
                    (case read_prop errorJson (js ''detail'') of
                       Inl x \<Rightarrow> False
                     | Inr d \<Rightarrow>
                         truthy d \<and>
                         (case js_includes d exhausted_balance of
                            Inl x \<Rightarrow> False
                          | Inr b \<Rightarrow> b)))))"

text \<open>Line 152: \<open>error instanceof Error ? error.message : "..."\<close>.\<close>

fun failure_text :: "thrown \<Rightarrow> jsstring" where
  "failure_text (ErrorObject True st bd (Some m)) = m"
| "failure_text (ErrorObject True st bd None) = []"
| "failure_text e = msg_generation_failed"

text \<open>\<open>localStorage.getItem("fal-ai-active-key") || ""\<close>.\<close>

definition active_key_or_empty :: "('w, 's) env \<Rightarrow> 's \<Rightarrow> jsstring" where
  "active_key_or_empty env s = (case getItem_active_key env s of None \<Rightarrow> [] | Some k \<Rightarrow> k)"

text \<open>
  The function. The first argument bounds the depth of the recursion: the source calls
  itself while \<open>handleBalanceExhaustedError\<close> answers true, and nothing in this file
  of the source bounds that. \<open>None\<close> is a run that needs more invocations than the
  bound. The result is the value the promise resolves to (\<open>Inr\<close>) or rejects with
  (\<open>Inl\<close>), with the world and the storage the run leaves.

  The three blocks of the \<open>catch\<close> (lines 84-96, 107-119, 129-141) are the same text:
  \<open>retry\<close> below.
\<close>

primrec generateImage ::
  "nat \<Rightarrow> ('w, 's) env \<Rightarrow> 'w \<Rightarrow> 's \<Rightarrow> Model \<Rightarrow> bag \<Rightarrow> jsstring \<Rightarrow>
     ((exn + GenerateImageResponse) \<times> 'w \<times> 's) option"
where
  "generateImage 0 env w s model input apiKey = None"
| "generateImage (Suc n) env w s model input apiKey =
     (case prompt_log (prop_of input (js ''prompt'')) of
        Some x \<Rightarrow> Some (Inl x, w, s)
      | None \<Rightarrow>
          (case try_block env w model input apiKey of
             (Inr response, w') \<Rightarrow> Some (Inr response, w', s)
           | (Inl e, w') \<Rightarrow>
               (let retry =
                  (let (switched, s') = handleBalanceExhaustedError env s in
                   if switched
                   then generateImage n env w' s' model input (active_key_or_empty env s')
                   else Some (Inr (Failure msg_all_keys_exhausted
                                     (Some (js ''ALL_KEYS_EXHAUSTED''))), w', s'))
                in
                if signal_body e then retry
                else if signal_message e then retry
                else if signal_json env e then retry
                else Some (Inr (Failure (failure_text e) None), w', s))))"


section \<open>ImageGenerator.vue: handleGenerate\<close>

subsection \<open>Lines 135-150: the parameters that are sent\<close>

text \<open>
  The callback of the filter, \<open>lora.path && lora.path.trim() !== ''\<close>, read as a
  truth value. Reading \<open>path\<close> of \<open>undefined\<close> or \<open>null\<close> throws; so does
  \<open>trim\<close> on a truthy path that is not a string.
\<close>

fun lora_has_path :: "jsval \<Rightarrow> exn + bool" where
  "lora_has_path JUndefined = Inl TypeError"
| "lora_has_path JNull = Inl TypeError"
| "lora_has_path (JObj ps) =
     (case map_of ps (js ''path'') of
        None \<Rightarrow> Inr False
      | Some (JStr p) \<Rightarrow> Inr (p \<noteq> [] \<and> js_trim p \<noteq> [])
      | Some v \<Rightarrow> (if truthy v then Inl TypeError else Inr False))"
| "lora_has_path v = Inr False"

text \<open>\<open>Array.prototype.filter\<close> with a callback that may throw.\<close>

fun js_filter :: "('a \<Rightarrow> exn + bool) \<Rightarrow> 'a list \<Rightarrow> exn + 'a list" where
  "js_filter f [] = Inr []"
| "js_filter f (x # xs) =
     (case f x of
        Inl e \<Rightarrow> Inl e
      | Inr b \<Rightarrow>
          (case js_filter f xs of
             Inl e \<Rightarrow> Inl e
           | Inr ys \<Rightarrow> Inr (if b then x # ys else ys)))"

text \<open>
  \<open>allParameters\<close> as line 152 logs it and line 188 sends it, or the exception the
  filter threw. An array is truthy, so the test of line 141 is \<open>Array.isArray\<close>.
\<close>

definition handleGenerate_parameters ::
  "(jsval \<Rightarrow> jsnum) \<Rightarrow> bag \<Rightarrow> jsstring \<Rightarrow> exn + bag"
where
  "handleGenerate_parameters conv params prompt_value =
     (let allParameters =
        ensureValidNumImages conv (params(js ''prompt'' \<mapsto> JStr prompt_value))
      in
        (case prop_of allParameters (js ''loras'') of
           JArr loras \<Rightarrow>
             (case js_filter lora_has_path loras of
                Inl e \<Rightarrow> Inl e
              | Inr kept \<Rightarrow>
                  Inr (if kept = [] then allParameters(js ''loras'' := None)
                       else allParameters(js ''loras'' \<mapsto> JArr kept)))
         | _ \<Rightarrow> Inr allParameters))"

subsection \<open>The component\<close>

text \<open>One constructor for each place that shows a toast, with what the place passes.\<close>

datatype toast =
    EnterPrompt
  | NoApiKey
  | GenerationSucceeded jsval
  | AllKeysExhausted
  | GenerationFailed jsstring
  | SwitchingKey
  | GenerationCrashed exn

text \<open>The record of lines 204-220.\<close>

record Generation =
  gen_id :: jsstring
  modelId :: jsstring
  modelName :: jsstring
  gen_prompt :: jsstring
  gen_parameters :: bag
  output_images :: "jsval list"
  output_timings :: jsval
  output_seed :: jsval
  output_has_nsfw_concepts :: "jsval list"
  timestamp :: jsval
  userId :: jsval
  isCurrentUser :: bool

text \<open>
  The refs of the component, and what it has done to the outside: the toasts shown,
  the records passed to \<open>saveGeneration\<close> (in the order of the calls), and how often
  \<open>setTimeout(handleGenerate, 1500)\<close> was called.
\<close>

record ('w, 's) page =
  parameters :: bag
  prompt :: jsstring
  result_value :: jsval
  isGenerating :: bool
  toasts :: "toast list"
  saved :: "Generation list"
  rescheduled :: nat
  world :: 'w
  storage :: 's

text \<open>
  What the component calls and does not define.
  \<^item> \<open>dispatcher\<close>: what \<open>generateImage\<close> calls.
  \<^item> \<open>StringToNumber\<close>: the parameter of \<open>ToNumber\<close>.
  \<^item> \<open>lookupApiKey\<close>: lines 160-172, the search for the active key in
    \<open>localStorage\<close>; it yields the key (empty when there is none) or throws, and may
    write to the storage.
  \<^item> \<open>saveGeneration\<close>: imported from \<open>generation-history\<close>; the promise it returns
    resolves (\<open>None\<close>) or rejects.
  \<^item> \<open>first_rejection\<close>: \<open>Promise.all\<close> rejects with the rejection that settles
    first; which one that is, is not decided by the code.
  \<^item> \<open>uuidv4\<close>, \<open>Date_now\<close>: by the position of the image; \<open>currentUserId\<close>.
  \<^item> \<open>index_prop v i\<close>: the property read \<open>v[i]\<close> on a truthy \<open>v\<close>.
\<close>

record ('w, 's) page_env =
  dispatcher :: "('w, 's) env"
  StringToNumber :: "jsval \<Rightarrow> jsnum"
  lookupApiKey :: "'s \<Rightarrow> (exn + jsstring) \<times> 's"
  saveGeneration :: "Generation \<Rightarrow> thrown option"
  first_rejection :: "thrown list \<Rightarrow> thrown"
  uuidv4 :: "nat \<Rightarrow> jsstring"
  Date_now :: "nat \<Rightarrow> jsval"
  currentUserId :: jsval
  index_prop :: "jsval \<Rightarrow> nat \<Rightarrow> jsval"

text \<open>Lines 204-220: the record of the image at position \<open>index\<close>.\<close>

definition newGeneration ::
  "('w, 's) page_env \<Rightarrow> Model \<Rightarrow> jsstring \<Rightarrow> bag \<Rightarrow> GenerateImageResponse \<Rightarrow>
     nat \<Rightarrow> jsval \<Rightarrow> Generation"
where
  "newGeneration penv model prompt_value allParameters successResponse index img =
     \<lparr> gen_id = uuidv4 penv index,
       modelId = model_id model,
       modelName = model_name model,
       gen_prompt = prompt_value,
       gen_parameters = allParameters,
       output_images = [img],
       output_timings = js_or (timings successResponse) (JObj []),
       output_seed = seed successResponse,
       output_has_nsfw_concepts =
         (if truthy (has_nsfw_concepts successResponse)
          then [js_or (index_prop penv (has_nsfw_concepts successResponse) index) (JBool False)]
          else [JBool False]),
       timestamp = Date_now penv index,
       userId = currentUserId penv,
       isCurrentUser = True \<rparr>"

text \<open>
  Lines 202-231. \<open>images.map\<close> runs every callback up to its \<open>await\<close>: each record
  is built and passed to \<open>saveGeneration\<close> before any of the promises settles.
  \<open>await Promise.all\<close> then resumes when all have resolved, or throws the first
  rejection. On a value that is not an array \<open>map\<close> is not a function.
\<close>

definition save_all ::
  "('w, 's) page_env \<Rightarrow> Model \<Rightarrow> bag \<Rightarrow> GenerateImageResponse \<Rightarrow> ('w, 's) page \<Rightarrow>
     exn option \<times> ('w, 's) page"
where
  "save_all penv model allParameters successResponse p =
     (case images successResponse of
        JArr imgs \<Rightarrow>
          (let records =
                 map (\<lambda>(index, img).
                        newGeneration penv model (prompt p) allParameters successResponse
                          index img)
                     (enumerate 0 imgs);
               rejections = List.map_filter (saveGeneration penv) records;
               p' = p\<lparr>saved := saved p @ records\<rparr>
           in if rejections = []
              then (None,
                    p'\<lparr>toasts := toasts p' @ [GenerationSucceeded (seed successResponse)]\<rparr>)
              else (Some (Thrown (first_rejection penv rejections)), p'))
      | _ \<Rightarrow> (Some TypeError, p))"

text \<open>
  Lines 133-248, the \<open>try\<close> block: the exception it throws into the \<open>catch\<close>, if
  any, and the page it leaves. \<open>None\<close> when \<open>generateImage\<close> needs more invocations
  than the bound.
\<close>

definition try_generate ::
  "nat \<Rightarrow> ('w, 's) page_env \<Rightarrow> Model \<Rightarrow> ('w, 's) page \<Rightarrow> (exn option \<times> ('w, 's) page) option"
where
  "try_generate fuel penv model p =
     (case handleGenerate_parameters (StringToNumber penv) (parameters p) (prompt p) of
        Inl x \<Rightarrow> Some (Some x, p)
      | Inr allParameters \<Rightarrow>
          (case lookupApiKey penv (storage p) of
             (Inl x, s1) \<Rightarrow> Some (Some x, p\<lparr>storage := s1\<rparr>)
           | (Inr apiKey, s1) \<Rightarrow>
               if apiKey = []
               then Some (None, p\<lparr>storage := s1, toasts := toasts p @ [NoApiKey],
                                   isGenerating := False\<rparr>)
               else
                 (case generateImage fuel (dispatcher penv) (world p) s1 model
                         allParameters apiKey of
                    None \<Rightarrow> None
                  | Some (Inl x, w', s') \<Rightarrow> Some (Some x, p\<lparr>world := w', storage := s'\<rparr>)
                  | Some (Inr (Success imgs sd rid tms nsfw), w', s') \<Rightarrow>
                      Some (save_all penv model allParameters (Success imgs sd rid tms nsfw)
                              (p\<lparr>world := w', storage := s', result_value := imgs\<rparr>))
                  | Some (Inr (Failure err code), w', s') \<Rightarrow>
                      Some (None,
                            p\<lparr>world := w', storage := s',
                              toasts := toasts p @
                                [if code = Some (js ''ALL_KEYS_EXHAUSTED'')
                                 then AllKeysExhausted else GenerationFailed err]\<rparr>))))"

text \<open>
  Lines 249-265, the \<open>catch\<close>: \<open>error.status === 403 && error.message &&
  error.message.includes('balance')\<close>. Reading \<open>status\<close> of \<open>undefined\<close> or \<open>null\<close>
  throws out of the handler. A TypeError of the engine has no \<open>status\<close>.
\<close>

fun catch_block :: "exn \<Rightarrow> ('w, 's) page \<Rightarrow> exn option \<times> ('w, 's) page" where
  "catch_block (Thrown Nullish) p = (Some TypeError, p)"
| "catch_block (Thrown (ErrorObject is_err st bd msg)) p =
     (if st = Some (JNum (Fin 403)) \<and>
         (case message_of (ErrorObject is_err st bd msg) of
            None \<Rightarrow> False
          | Some m \<Rightarrow> m \<noteq> [] \<and> includes_str m (js ''balance''))
      then (None, p\<lparr>toasts := toasts p @ [SwitchingKey], rescheduled := Suc (rescheduled p)\<rparr>)
      else (None, p\<lparr>toasts := toasts p @
                       [GenerationCrashed (Thrown (ErrorObject is_err st bd msg))]\<rparr>))"
| "catch_block x p = (None, p\<lparr>toasts := toasts p @ [GenerationCrashed x]\<rparr>)"

text \<open>
  The function: the exception its promise rejects with, if any, and the page.
  Line 126 returns before the \<open>try\<close>; the \<open>finally\<close> of line 267 runs on every way
  out of it.
\<close>

definition handleGenerate ::
  "nat \<Rightarrow> ('w, 's) page_env \<Rightarrow> Model \<Rightarrow> ('w, 's) page \<Rightarrow> (exn option \<times> ('w, 's) page) option"
where
  "handleGenerate fuel penv model p =
     (if js_trim (prompt p) = [] then Some (None, p\<lparr>toasts := toasts p @ [EnterPrompt]\<rparr>)
      else
        (case try_generate fuel penv model (p\<lparr>isGenerating := True\<rparr>) of
           None \<Rightarrow> None
         | Some (None, p') \<Rightarrow> Some (None, p'\<lparr>isGenerating := False\<rparr>)
         | Some (Some x, p') \<Rightarrow>
             (case catch_block x p' of
                (y, p'') \<Rightarrow> Some (y, p''\<lparr>isGenerating := False\<rparr>))))"


section \<open>The Credential Rotation Policy\<close>

text \<open>
  Modelled from the spec: the credential store of section 4.2, "an ordered list of
  credentials with one active index (or unset)". The module \<open>api-key-manager\<close> that
  holds it is not among the sources.
\<close>

record key_store =
  credentials :: "jsstring list"
  active_index :: "nat option"

text \<open>
  Modelled from the spec: \<open>getActive()\<close>, which "returns the credential at the active
  index, or none if unset/out of range".
\<close>

definition getActive :: "key_store \<Rightarrow> jsstring option" where
  "getActive ks =
     (case active_index ks of
        None \<Rightarrow> None
      | Some i \<Rightarrow> if i < length (credentials ks) then Some (credentials ks ! i) else None)"

text \<open>
  Modelled from the spec: \<open>advance()\<close>, which "moves the active index to (current + 1).
  If the new index is within bounds, marks it active and returns that credential. If
  out of bounds, leaves state as exhausted and returns none", and is "idempotent under
  repeated calls once exhausted (always returns none again, never wraps around)". With
  no active index there is no current one to move from.
\<close>

definition advance :: "key_store \<Rightarrow> jsstring option \<times> key_store" where
  "advance ks =
     (case active_index ks of
        None \<Rightarrow> (None, ks)
      | Some i \<Rightarrow>
          if Suc i < length (credentials ks)
          then (Some (credentials ks ! Suc i), ks\<lparr>active_index := Some (Suc i)\<rparr>)
          else (None, ks\<lparr>active_index := Some (length (credentials ks))\<rparr>))"

text \<open>
  Modelled from the spec: what \<open>generateImage\<close> calls, when the storage is this
  credential store. \<open>handleBalanceExhaustedError\<close> is \<open>advance()\<close>, which "signals
  whether a retry is viable"; the slot \<open>fal-ai-active-key\<close> holds the active
  credential, so reading it is \<open>getActive()\<close>. The outbound call and \<open>JSON.parse\<close>
  stay parameters.
\<close>

definition policy_env ::
  "('w \<Rightarrow> jsstring \<Rightarrow> bag \<Rightarrow> jsstring \<Rightarrow> (thrown + api_result) \<times> 'w) \<Rightarrow>
     (jsstring \<Rightarrow> jsval option) \<Rightarrow> ('w, key_store) env"
where
  "policy_env call parse =
     \<lparr> subscribe = call,
       handleBalanceExhaustedError = (\<lambda>ks. (fst (advance ks) \<noteq> None, snd (advance ks))),
       getItem_active_key = getActive,
       JSON_parse = parse \<rparr>"

text \<open>The credentials behind the active one.\<close>

definition credentials_left :: "key_store \<Rightarrow> nat" where
  "credentials_left ks =
     (case active_index ks of
        None \<Rightarrow> 0
      | Some i \<Rightarrow> length (credentials ks) - Suc i)"

section \<open>The detection of an exhausted balance, in the words of the specification\<close>





text \<open>What the \<open>catch\<close> of \<open>generateImage\<close> does once a signal has matched.\<close>

definition rotate_and_retry ::
  "nat \<Rightarrow> ('w, 's) env \<Rightarrow> 'w \<Rightarrow> 's \<Rightarrow> Model \<Rightarrow> bag \<Rightarrow>
     ((exn + GenerateImageResponse) \<times> 'w \<times> 's) option"
where
  "rotate_and_retry n env w s model input =
     (if fst (handleBalanceExhaustedError env s)
      then generateImage n env w (snd (handleBalanceExhaustedError env s)) model input
             (active_key_or_empty env (snd (handleBalanceExhaustedError env s)))
      else Some (Inr (Failure msg_all_keys_exhausted (Some (js ''ALL_KEYS_EXHAUSTED''))),
                 w, snd (handleBalanceExhaustedError env s)))"

text \<open>A prompt that the log entry of lines 10-13 can print.\<close>

definition prompt_ok :: "bag \<Rightarrow> bool" where
  "prompt_ok input = (prompt_log (prop_of input (js ''prompt'')) = None)"


text \<open>
  An entry of \<open>loras\<close> that has a path: an object whose \<open>path\<close> is a string with a
  code unit that is not white space. An entry whose path is missing, empty or white
  space only has none.
\<close>

fun path_filled :: "jsval \<Rightarrow> bool" where
  "path_filled (JObj ps) =
     (case map_of ps (js ''path'') of
        Some (JStr p) \<Rightarrow> \<not> list_all is_js_whitespace p
      | _ \<Rightarrow> False)"
| "path_filled v = False"

section \<open>Examples\<close>

text \<open>Two bags for the example: four entries of which two have a path, and none.\<close>

definition example_loras :: "jsval list" where
  "example_loras =
     [JObj [(js ''path'', JStr (js ''a''))],
      JObj [(js ''path'', JStr (js ''  ''))],
      JObj [(js ''scale'', JNum (Fin 1))],
      JObj [(js ''path'', JStr (js ''b''))]]"

definition example_sent :: bag where
  "example_sent =
     [js ''loras'' \<mapsto> JArr [JObj [(js ''path'', JStr (js ''a''))],
                             JObj [(js ''path'', JStr (js ''b''))]],
      js ''prompt'' \<mapsto> JStr (js ''cat'')]"

text \<open>A model and a parameter bag.\<close>

definition example_model :: Model where
  "example_model = \<lparr> model_id = js ''fal-ai/flux-lora'', model_name = js ''FLUX LoRA'' \<rparr>"

definition example_input :: bag where
  "example_input = [js ''prompt'' \<mapsto> JStr (js ''a cat'')]"

text \<open>
  The errors of the examples: the vendor's 403 with its structured body; a transport
  error; a message with both markers; a message with an embedded JSON object; and a
  500 whose body names the exhausted balance.
\<close>

definition balance_error :: thrown where
  "balance_error =
     ErrorObject True (Some (JNum (Fin 403)))
       (Some (JObj [(js ''detail'', JStr (js ''User is locked. Reason: Exhausted balance.''))]))
       (Some (js ''Forbidden''))"

definition server_error :: thrown where
  "server_error = new_Error (js ''Request failed: 500 Internal Server Error'')"

definition marker_error :: thrown where
  "marker_error = new_Error (js ''403 Forbidden: Exhausted balance'')"

definition embedded_error :: thrown where
  "embedded_error = new_Error (js ''Error: {\"detail\": \"Exhausted balance\"}'')"

definition status500_error :: thrown where
  "status500_error =
     ErrorObject True (Some (JNum (Fin 500)))
       (Some (JObj [(js ''detail'', JStr (js ''Exhausted balance''))]))
       (Some (js ''Server error''))"

text \<open>A parser that knows one text, and one that knows none.\<close>

definition example_parse :: "jsstring \<Rightarrow> jsval option" where
  "example_parse txt =
     (if txt = js ''{\"detail\": \"Exhausted balance\"}''
      then Some (JObj [(js ''detail'', JStr (js ''Exhausted balance''))])
      else None)"

definition no_parse :: "jsstring \<Rightarrow> jsval option" where
  "no_parse txt = None"

text \<open>
  Outbound calls whose world is the list of the credentials they were made with. The
  first succeeds with the credential \<open>key-c\<close> and reports an exhausted balance on every
  other; the second always rejects with the error it is given.
\<close>

definition two_images :: api_result where
  "two_images =
     \<lparr> data = JObj [(js ''images'', JArr [JStr (js ''img1''), JStr (js ''img2'')]),
                    (js ''seed'', JNum (Fin 7))],
       requestId = JStr (js ''req-1'') \<rparr>"

definition example_call ::
  "jsstring list \<Rightarrow> jsstring \<Rightarrow> bag \<Rightarrow> jsstring \<Rightarrow> (thrown + api_result) \<times> jsstring list"
where
  "example_call w mid input key =
     (if key = js ''key-c'' then (Inr two_images, w @ [key])
      else (Inl balance_error, w @ [key]))"

definition failing_call ::
  "thrown \<Rightarrow> jsstring list \<Rightarrow> jsstring \<Rightarrow> bag \<Rightarrow> jsstring \<Rightarrow>
     (thrown + api_result) \<times> jsstring list"
where
  "failing_call e w mid input key = (Inl e, w @ [key])"

definition answering_call ::
  "api_result \<Rightarrow> jsstring list \<Rightarrow> jsstring \<Rightarrow> bag \<Rightarrow> jsstring \<Rightarrow>
     (thrown + api_result) \<times> jsstring list"
where
  "answering_call r w mid input key = (Inr r, w @ [key])"

text \<open>Credential stores with three, two and one credential, the first one active.\<close>

definition three_keys :: key_store where
  "three_keys = \<lparr> credentials = [js ''key-a'', js ''key-b'', js ''key-c''],
                   active_index = Some 0 \<rparr>"

definition two_keys :: key_store where
  "two_keys = \<lparr> credentials = [js ''key-a'', js ''key-b''], active_index = Some 0 \<rparr>"

definition one_key :: key_store where
  "one_key = \<lparr> credentials = [js ''key-a''], active_index = Some 0 \<rparr>"

text \<open>
  A rotation that reports success and leaves the slot \<open>fal-ai-active-key\<close> empty; the
  storage is the number of rotations still possible.
\<close>

definition forgetful_env :: "(jsstring list, nat) env" where
  "forgetful_env =
     \<lparr> subscribe = failing_call balance_error,
       handleBalanceExhaustedError = (\<lambda>k. (0 < k, k - 1)),
       getItem_active_key = (\<lambda>k. None),
       JSON_parse = no_parse \<rparr>"

text \<open>
  A page whose active credential is the one the example call accepts, and what the
  component calls: the active credential as the key, and a \<open>saveGeneration\<close> that is
  given. One \<open>saveGeneration\<close> always resolves; the other rejects for the first image.
\<close>

definition example_page :: "(jsstring list, key_store) page" where
  "example_page =
     \<lparr> parameters = Map.empty,
       prompt = js ''a cat'',
       result_value = JNull,
       isGenerating = False,
       toasts = [],
       saved = [],
       rescheduled = 0,
       world = [],
       storage = \<lparr> credentials = [js ''key-a'', js ''key-b'', js ''key-c''],
                     active_index = Some 2 \<rparr> \<rparr>"

definition example_page_env ::
  "(Generation \<Rightarrow> thrown option) \<Rightarrow> (jsstring list, key_store) page_env"
where
  "example_page_env save =
     \<lparr> dispatcher = policy_env example_call no_parse,
       StringToNumber = (\<lambda>v. NaN),
       lookupApiKey = (\<lambda>ks. (Inr (case getActive ks of None \<Rightarrow> [] | Some k \<Rightarrow> k), ks)),
       saveGeneration = save,
       first_rejection = hd,
       uuidv4 = (\<lambda>i. js ''0000''),
       Date_now = (\<lambda>i. JNum (Fin 0)),
       currentUserId = JNull,
       index_prop = (\<lambda>v i. JUndefined) \<rparr>"

definition save_ok :: "Generation \<Rightarrow> thrown option" where
  "save_ok g = None"

definition save_first_fails :: "Generation \<Rightarrow> thrown option" where
  "save_first_fails g =
     (if output_images g = [JStr (js ''img1'')] then Some (new_Error (js ''insert failed''))
      else None)"

section \<open>Clamping the number of images\<close>

lemma num_images_not_prompt: "js ''num_images'' \<noteq> js ''prompt''"
  by (simp add: js_def)

lemma loras_not_others: "js ''loras'' \<noteq> js ''prompt''" "js ''loras'' \<noteq> js ''num_images''"
  by (simp_all add: js_def)

lemma ensureValidNumImages_other:
  "k \<noteq> js ''num_images'' \<Longrightarrow> ensureValidNumImages conv params k = params k"
  by (simp add: ensureValidNumImages_def)

text \<open>
  C4. For every parameter bag: when \<open>num_images\<close> is a number greater than 4, the
  clamped bag has \<open>num_images\<close> equal to 4; when \<open>num_images\<close> is absent, or a number
  that is not greater than 4, the bag is returned as it is. No other field changes.
\<close>

theorem ensureValidNumImages_clamps:
  "(params (js ''num_images'') = Some (JNum n) \<and> num_less (Fin 4) n \<longrightarrow>
      ensureValidNumImages conv params (js ''num_images'') = Some (JNum (Fin 4))) \<and>
   (params (js ''num_images'') = None \<or>
      (params (js ''num_images'') = Some (JNum n) \<and> \<not> num_less (Fin 4) n) \<longrightarrow>
      ensureValidNumImages conv params = params) \<and>
   (k \<noteq> js ''num_images'' \<longrightarrow> ensureValidNumImages conv params k = params k)"
proof (intro conjI impI)
  assume a: "params (js ''num_images'') = Some (JNum n) \<and> num_less (Fin 4) n"
  then have "truthy (JNum n)"
    by (cases n) auto
  with a show "ensureValidNumImages conv params (js ''num_images'') = Some (JNum (Fin 4))"
    by (simp add: ensureValidNumImages_def prop_of_def js_greater_def)
next
  assume "params (js ''num_images'') = None \<or>
    (params (js ''num_images'') = Some (JNum n) \<and> \<not> num_less (Fin 4) n)"
  then show "ensureValidNumImages conv params = params"
    by (auto simp: ensureValidNumImages_def prop_of_def js_greater_def)
next
  assume "k \<noteq> js ''num_images''"
  then show "ensureValidNumImages conv params k = params k"
    by (rule ensureValidNumImages_other)
qed

theorem ensureValidNumImages_clamps_witness:
  "ensureValidNumImages (\<lambda>v. NaN) [js ''num_images'' \<mapsto> JNum (Fin 7)] (js ''num_images'')
     = Some (JNum (Fin 4)) \<and>
   ensureValidNumImages (\<lambda>v. NaN) [js ''num_images'' \<mapsto> JNum (Fin 3)]
     = [js ''num_images'' \<mapsto> JNum (Fin 3)] \<and>
   ensureValidNumImages (\<lambda>v. NaN) [js ''num_images'' \<mapsto> JNum (Fin 7)] (js ''prompt'') = None"
  using
    ensureValidNumImages_clamps [of "[js ''num_images'' \<mapsto> JNum (Fin 7)]" "Fin 7"
      "\<lambda>v. NaN" "js ''prompt''"]
    ensureValidNumImages_clamps [of "[js ''num_images'' \<mapsto> JNum (Fin 3)]" "Fin 3"
      "\<lambda>v. NaN" "js ''prompt''"]
  by (simp add: num_images_not_prompt [symmetric])


section \<open>Strings\<close>

text \<open>\<open>includes_str\<close> is the sublist relation of the library, computed.\<close>

lemma includes_str_sublist: "includes_str s t = sublist t s"
  by (induction s) (auto simp: sublist_Cons_right)

section \<open>The filter on the LoRA entries\<close>

lemma js_trim_empty_iff: "js_trim p = [] \<longleftrightarrow> list_all is_js_whitespace p"
proof (cases "dropWhile is_js_whitespace p")
  case Nil
  then have "list_all is_js_whitespace p"
    by (simp add: list_all_iff dropWhile_eq_Nil_conv)
  moreover have "js_trim p = []"
    unfolding js_trim_def Nil by simp
  ultimately show ?thesis by simp
next
  case (Cons c t)
  then have c: "\<not> is_js_whitespace c"
    by (metis hd_dropWhile list.distinct(1) list.sel(1))
  have "\<not> list_all is_js_whitespace p"
    using Cons dropWhile_eq_Nil_conv [of is_js_whitespace p] by (simp add: list_all_iff)
  moreover have "dropWhile is_js_whitespace (rev t @ [c]) \<noteq> []"
    using c by (simp add: dropWhile_append)
  then have "js_trim p \<noteq> []"
    unfolding js_trim_def Cons by simp
  ultimately show ?thesis by simp
qed

lemma lora_has_path_filled:
  "lora_has_path l = Inr b \<Longrightarrow> b = path_filled l"
  by (cases l)
     (auto simp: js_trim_empty_iff split: option.splits jsval.splits if_splits)

lemma js_filter_Inr:
  "js_filter f xs = Inr ys \<Longrightarrow> (\<And>x b. f x = Inr b \<Longrightarrow> b = P x) \<Longrightarrow> ys = filter P xs"
proof (induction xs arbitrary: ys)
  case Nil
  then show ?case by simp
next
  case (Cons x xs)
  then show ?case
    by (fastforce split: sum.splits if_splits)
qed

lemma kept_loras:
  "js_filter lora_has_path loras = Inr kept \<Longrightarrow> kept = filter path_filled loras"
  by (erule js_filter_Inr) (rule lora_has_path_filled)

text \<open>
  C10. When the \<open>loras\<close> field of the parameters is an array and the parameters are
  sent (the filter did not throw), the bag that is sent holds under \<open>loras\<close> the
  entries that have a path, in their order; every entry whose path is missing, empty
  or white space only is gone. When no entry remains the bag has no \<open>loras\<close> key.
\<close>

theorem loras_filtered:
  assumes "params (js ''loras'') = Some (JArr loras)"
    and "handleGenerate_parameters conv params prompt_value = Inr sent"
  shows "sent (js ''loras'') =
           (if filter path_filled loras = [] then None
            else Some (JArr (filter path_filled loras)))"
proof -
  let ?all = "ensureValidNumImages conv (params(js ''prompt'' \<mapsto> JStr prompt_value))"
  have l: "prop_of ?all (js ''loras'') = JArr loras"
    using assms(1)
    by (simp add: prop_of_def ensureValidNumImages_other loras_not_others)
  obtain kept where k: "js_filter lora_has_path loras = Inr kept"
    using assms(2) l
    by (cases "js_filter lora_has_path loras") (simp_all add: handleGenerate_parameters_def)
  then have "kept = filter path_filled loras"
    by (rule kept_loras)
  with k l assms(2) show ?thesis
    by (auto simp: handleGenerate_parameters_def)
qed



lemma example_sent_eq:
  "handleGenerate_parameters (\<lambda>v. NaN) [js ''loras'' \<mapsto> JArr example_loras] (js ''cat'')
     = Inr example_sent"
  by (simp add: handleGenerate_parameters_def ensureValidNumImages_def prop_of_def js_def
      js_trim_def is_js_whitespace_def fun_upd_twist example_loras_def example_sent_def)

lemma example_blank_eq:
  "handleGenerate_parameters (\<lambda>v. NaN)
     [js ''loras'' \<mapsto> JArr [JObj [(js ''path'', JStr (js ''  ''))], JObj []]] (js ''cat'')
     = Inr [js ''prompt'' \<mapsto> JStr (js ''cat'')]"
  by (simp add: handleGenerate_parameters_def ensureValidNumImages_def prop_of_def js_def
      js_trim_def is_js_whitespace_def fun_upd_twist)

theorem loras_filtered_witness:
  "handleGenerate_parameters (\<lambda>v. NaN) [js ''loras'' \<mapsto> JArr example_loras] (js ''cat'')
     = Inr example_sent \<and>
   example_sent (js ''loras'') =
     Some (JArr [JObj [(js ''path'', JStr (js ''a''))], JObj [(js ''path'', JStr (js ''b''))]]) \<and>
   handleGenerate_parameters (\<lambda>v. NaN)
     [js ''loras'' \<mapsto> JArr [JObj [(js ''path'', JStr (js ''  ''))], JObj []]] (js ''cat'')
     = Inr [js ''prompt'' \<mapsto> JStr (js ''cat'')] \<and>
   [js ''prompt'' \<mapsto> JStr (js ''cat'')] (js ''loras'') = None"
  using loras_filtered [OF _ example_sent_eq, of example_loras]
    loras_filtered [OF _ example_blank_eq]
  by (simp add: example_sent_eq example_blank_eq loras_not_others example_sent_def)

section \<open>generateImage, one invocation at a time\<close>

text \<open>
  The three ways out of an invocation: the \<open>try\<close> block returned; it threw and a
  signal matched; it threw and none matched.
\<close>

lemma generateImage_resolved:
  assumes "prompt_ok input" "try_block env w model input apiKey = (Inr r, w')"
  shows "generateImage (Suc n) env w s model input apiKey = Some (Inr r, w', s)"
  using assms by (simp add: prompt_ok_def)

lemma generateImage_rotates:
  assumes "prompt_ok input" "try_block env w model input apiKey = (Inl e, w')"
    and "signal_body e \<or> signal_message e \<or> signal_json env e"
  shows "generateImage (Suc n) env w s model input apiKey = rotate_and_retry n env w' s model input"
  using assms by (auto simp: prompt_ok_def rotate_and_retry_def Let_def split: prod.splits)

lemma generateImage_plain:
  assumes "prompt_ok input" "try_block env w model input apiKey = (Inl e, w')"
    and "\<not> signal_body e" "\<not> signal_message e" "\<not> signal_json env e"
  shows "generateImage (Suc n) env w s model input apiKey =
           Some (Inr (Failure (failure_text e) None), w', s)"
  using assms by (simp add: prompt_ok_def Let_def)

declare generateImage.simps(2) [simp del]

lemma own_errors_no_signal:
  "\<not> signal_body (new_Error m)"
  "\<not> signal_message (new_Error msg_missing_key)"
  "\<not> signal_json env (new_Error msg_missing_key)"
  "\<not> signal_message (new_Error msg_no_images)"
  "\<not> signal_json env (new_Error msg_no_images)"
  by (simp_all add: new_Error_def signal_message_def signal_json_def match_braces_def
      msg_missing_key_def msg_no_images_def js_def)

lemma try_block_no_key: "try_block env w model input [] = (Inl (new_Error msg_missing_key), w)"
  by (simp add: try_block_def)

lemma generateImage_no_key:
  assumes "prompt_ok input"
  shows "generateImage (Suc n) env w s model input [] =
           Some (Inr (Failure msg_missing_key None), w, s)"
proof -
  have "generateImage (Suc n) env w s model input [] =
          Some (Inr (Failure (failure_text (new_Error msg_missing_key)) None), w, s)"
    by (rule generateImage_plain [OF assms try_block_no_key]) (rule own_errors_no_signal)+
  then show ?thesis by (simp add: new_Error_def)
qed


lemma generateImage_returns:
  assumes "prompt_ok input"
    and dec: "\<And>t. fst (handleBalanceExhaustedError env t) \<Longrightarrow>
                 \<mu> (snd (handleBalanceExhaustedError env t)) < \<mu> t"
    and "\<mu> s < n"
  shows "\<exists>r w' s'. generateImage n env w s model input apiKey = Some (Inr r, w', s')"
  using \<open>\<mu> s < n\<close>
proof (induction n arbitrary: w s apiKey)
  case 0
  then show ?case by simp
next
  case (Suc n)
  obtain out w1 where tb: "try_block env w model input apiKey = (out, w1)"
    by (cases "try_block env w model input apiKey")
  show ?case
  proof (cases out)
    case (Inr r)
    with tb assms show ?thesis by (simp add: generateImage_resolved)
  next
    case (Inl e)
    show ?thesis
    proof (cases "signal_body e \<or> signal_message e \<or> signal_json env e")
      case True
      with tb Inl assms have eq: "generateImage (Suc n) env w s model input apiKey =
          rotate_and_retry n env w1 s model input"
        by (simp add: generateImage_rotates)
      show ?thesis
      proof (cases "fst (handleBalanceExhaustedError env s)")
        case True
        then have "\<mu> (snd (handleBalanceExhaustedError env s)) < n"
          using dec [of s] Suc.prems by simp
        from Suc.IH [OF this] True eq show ?thesis by (simp add: rotate_and_retry_def)
      next
        case False
        with eq show ?thesis by (simp add: rotate_and_retry_def)
      qed
    next
      case False
      with tb Inl assms show ?thesis by (simp add: generateImage_plain)
    qed
  qed
qed

lemma generateImage_more_fuel:
  "generateImage n env w s model input apiKey = Some res \<Longrightarrow> n \<le> m \<Longrightarrow>
   generateImage m env w s model input apiKey = Some res"
proof (induction n arbitrary: m w s apiKey)
  case 0
  then show ?case by simp
next
  case (Suc n)
  then obtain m' where m: "m = Suc m'" "n \<le> m'"
    by (cases m) auto
  show ?case
  proof (cases "prompt_log (prop_of input (js ''prompt''))")
    case (Some x)
    with Suc.prems m show ?thesis by (simp add: generateImage.simps)
  next
    case None
    then have ok: "prompt_ok input" by (simp add: prompt_ok_def)
    obtain out w1 where tb: "try_block env w model input apiKey = (out, w1)"
      by (cases "try_block env w model input apiKey")
    show ?thesis
    proof (cases out)
      case (Inr r)
      with tb ok Suc.prems m show ?thesis by (simp add: generateImage_resolved)
    next
      case (Inl e)
      show ?thesis
      proof (cases "signal_body e \<or> signal_message e \<or> signal_json env e")
        case True
        with tb Inl ok have eq: "\<And>k. generateImage (Suc k) env w s model input apiKey =
            rotate_and_retry k env w1 s model input"
          by (simp add: generateImage_rotates)
        show ?thesis
        proof (cases "fst (handleBalanceExhaustedError env s)")
          case True
          with Suc.prems(1) eq have "generateImage n env w1 (snd (handleBalanceExhaustedError env s))
              model input (active_key_or_empty env (snd (handleBalanceExhaustedError env s))) = Some res"
            by (simp add: rotate_and_retry_def)
          from Suc.IH [OF this m(2)] True eq m show ?thesis
            by (simp add: rotate_and_retry_def)
        next
          case False
          with Suc.prems(1) eq m show ?thesis by (simp add: rotate_and_retry_def)
        qed
      next
        case False
        with tb Inl ok Suc.prems m show ?thesis by (simp add: generateImage_plain)
      qed
    qed
  qed
qed

section \<open>The rotation policy\<close>

lemma advance_decreases:
  "fst (advance ks) \<noteq> None \<Longrightarrow> credentials_left (snd (advance ks)) < credentials_left ks"
  by (auto simp: advance_def credentials_left_def split: option.splits if_splits)

lemma advance_active:
  "advance ks = (Some c, ks') \<Longrightarrow> getActive ks' = Some c"
  by (auto simp: advance_def getActive_def split: option.splits if_splits)

lemma policy_env_simps:
  "subscribe (policy_env call parse) = call"
  "handleBalanceExhaustedError (policy_env call parse) = (\<lambda>ks. (fst (advance ks) \<noteq> None, snd (advance ks)))"
  "getItem_active_key (policy_env call parse) = getActive"
  "JSON_parse (policy_env call parse) = parse"
  by (simp_all add: policy_env_def)

section \<open>Evaluating the examples\<close>

lemmas run_defs =
  generateImage.simps try_block_def prompt_log.simps prop_of_def policy_env_def
  signal_message_def signal_json_def match_braces_def exhausted_balance_def
  active_key_or_empty_def optional_prop_def js_or_def new_Error_def
  advance_def getActive_def js_def Let_def
  msg_missing_key_def msg_no_images_def

lemmas example_defs =
  example_model_def example_input_def balance_error_def server_error_def marker_error_def
  embedded_error_def status500_error_def example_parse_def no_parse_def two_images_def
  example_call_def failing_call_def answering_call_def three_keys_def two_keys_def
  one_key_def forgetful_env_def

lemma example_prompt_ok: "prompt_ok example_input"
  by (simp add: prompt_ok_def example_input_def prop_of_def)

lemma failure_text_new_Error: "failure_text (new_Error m) = m"
  by (simp add: new_Error_def)

section \<open>Rotation on an exhausted balance\<close>

text \<open>
  C1. With the rotation policy of the specification: when the \<open>try\<close> block fails with
  an error on which a signal matches, \<open>generateImage\<close> calls \<open>advance()\<close>. If
  \<open>advance()\<close> returns a credential, the result is that of \<open>generateImage\<close> called
  again with that credential, the same model and the same parameters. If it returns
  none, the result is the failure with the code \<open>ALL_KEYS_EXHAUSTED\<close>. The run ends
  with a result after at most one retry for each credential behind the active one.
\<close>

theorem rotation_on_exhausted_balance:
  assumes "prompt_ok input"
    and "try_block (policy_env call parse) w model input apiKey = (Inl e, w')"
    and "signal_body e \<or> signal_message e \<or> signal_json (policy_env call parse) e"
  shows "generateImage (Suc n) (policy_env call parse) w ks model input apiKey =
           (case advance ks of
              (Some c, ks') \<Rightarrow> generateImage n (policy_env call parse) w' ks' model input c
            | (None, ks') \<Rightarrow>
                Some (Inr (Failure msg_all_keys_exhausted (Some (js ''ALL_KEYS_EXHAUSTED''))),
                      w', ks'))
         \<and> (\<exists>r w'' ks''. \<forall>m > credentials_left ks.
               generateImage m (policy_env call parse) w ks model input apiKey =
                 Some (Inr r, w'', ks''))"
proof
  have eq: "generateImage (Suc n) (policy_env call parse) w ks model input apiKey =
      rotate_and_retry n (policy_env call parse) w' ks model input"
    using assms by (rule generateImage_rotates)
  obtain c ks' where a: "advance ks = (c, ks')"
    by (cases "advance ks")
  show "generateImage (Suc n) (policy_env call parse) w ks model input apiKey =
           (case advance ks of
              (Some c, ks') \<Rightarrow> generateImage n (policy_env call parse) w' ks' model input c
            | (None, ks') \<Rightarrow>
                Some (Inr (Failure msg_all_keys_exhausted (Some (js ''ALL_KEYS_EXHAUSTED''))),
                      w', ks'))"
  proof (cases c)
    case None
    with a eq show ?thesis
      by (simp add: rotate_and_retry_def policy_env_simps)
  next
    case (Some k)
    with a have "getActive ks' = Some k"
      by (simp add: advance_active)
    with a Some eq show ?thesis
      by (simp add: rotate_and_retry_def policy_env_simps active_key_or_empty_def)
  qed
next
  have "\<exists>r w'' ks''. generateImage (Suc (credentials_left ks)) (policy_env call parse) w ks
          model input apiKey = Some (Inr r, w'', ks'')"
    by (rule generateImage_returns [OF assms(1), where \<mu> = credentials_left])
       (simp_all add: policy_env_simps advance_decreases)
  then obtain r w'' ks'' where
    "generateImage (Suc (credentials_left ks)) (policy_env call parse) w ks
          model input apiKey = Some (Inr r, w'', ks'')"
    by blast
  then have "\<forall>m > credentials_left ks.
      generateImage m (policy_env call parse) w ks model input apiKey = Some (Inr r, w'', ks'')"
    by (auto intro: generateImage_more_fuel)
  then show "\<exists>r w'' ks''. \<forall>m > credentials_left ks.
               generateImage m (policy_env call parse) w ks model input apiKey =
                 Some (Inr r, w'', ks'')"
    by blast
qed

theorem rotation_on_exhausted_balance_witness:
  "generateImage (Suc (Suc (Suc 0))) (policy_env example_call no_parse) [] three_keys
       example_model example_input (js ''key-a'') =
     Some (Inr (Success (JArr [JStr (js ''img1''), JStr (js ''img2'')]) (JNum (Fin 7))
                  (JStr (js ''req-1'')) (JObj []) (JArr [])),
           [js ''key-a'', js ''key-b'', js ''key-c''],
           three_keys\<lparr>active_index := Some 2\<rparr>) \<and>
   generateImage (Suc (Suc 0)) (policy_env example_call no_parse) [] two_keys
       example_model example_input (js ''key-a'') =
     Some (Inr (Failure msg_all_keys_exhausted (Some (js ''ALL_KEYS_EXHAUSTED''))),
           [js ''key-a'', js ''key-b''],
           two_keys\<lparr>active_index := Some 2\<rparr>)"
proof -
  have failed: "try_block (policy_env example_call no_parse) [] example_model example_input
      (js ''key-a'') = (Inl balance_error, [js ''key-a''])"
    by (simp add: run_defs example_defs)
  have matched: "signal_body balance_error \<or> signal_message balance_error \<or>
      signal_json (policy_env example_call no_parse) balance_error"
    by (simp add: run_defs example_defs)
  note three = rotation_on_exhausted_balance [OF example_prompt_ok failed matched,
      of "Suc (Suc 0)" three_keys]
  note two = rotation_on_exhausted_balance [OF example_prompt_ok failed matched,
      of "Suc 0" two_keys]
  from three two show ?thesis
    by (simp add: run_defs example_defs)
qed

section \<open>The three signals\<close>




section \<open>No exception leaves generateImage\<close>




section \<open>Failures without a signal\<close>

text \<open>
  C5. When the \<open>try\<close> block fails with an error on which none of the three signals
  matches, \<open>generateImage\<close> returns a \<open>Failure\<close> with no \<open>errorCode\<close> whose message
  is the error's message when the error is an \<open>instanceof Error\<close>, and the generic
  text otherwise. One invocation suffices, the world is the one the single outbound
  call left, and the storage is untouched: there is no retry.
\<close>

theorem plain_failure_without_signal:
  assumes "prompt_ok input"
    and "try_block env w model input apiKey = (Inl e, w')"
    and "\<not> signal_body e" and "\<not> signal_message e" and "\<not> signal_json env e"
  shows "generateImage (Suc n) env w s model input apiKey =
           Some (Inr (Failure (failure_text e) None), w', s)"
  using assms by (rule generateImage_plain)

theorem plain_failure_without_signal_witness:
  "generateImage (Suc 0) (policy_env (failing_call server_error) no_parse) [] two_keys
       example_model example_input (js ''key-a'') =
     Some (Inr (Failure (js ''Request failed: 500 Internal Server Error'') None),
           [js ''key-a''], two_keys)"
proof -
  have failed: "try_block (policy_env (failing_call server_error) no_parse) [] example_model
      example_input (js ''key-a'') = (Inl server_error, [js ''key-a''])"
    by (simp add: run_defs example_defs)
  have none: "\<not> signal_body server_error" "\<not> signal_message server_error"
      "\<not> signal_json (policy_env (failing_call server_error) no_parse) server_error"
    by (simp_all add: run_defs example_defs)
  from plain_failure_without_signal [OF example_prompt_ok failed none, of 0 two_keys]
  show ?thesis
    by (simp add: server_error_def failure_text_new_Error)
qed

text \<open>
  C6. When the outbound call completes and the response has no images
  (\<open>result.data?.images\<close> is falsy, for one when it is missing, or has length 0),
  \<open>generateImage\<close> returns the \<open>Failure\<close> with the "no images" message and no
  \<open>errorCode\<close>, after that one call and with the storage untouched.
\<close>

theorem no_images_is_a_failure:
  assumes "prompt_ok input"
    and "apiKey \<noteq> []"
    and "subscribe env w (model_id model) input apiKey = (Inr result, w')"
    and "\<not> truthy (optional_prop (data result) (js ''images'')) \<or>
         js_length (optional_prop (data result) (js ''images'')) = JNum (Fin 0)"
  shows "generateImage (Suc n) env w s model input apiKey =
           Some (Inr (Failure msg_no_images None), w', s)"
proof -
  have "try_block env w model input apiKey = (Inl (new_Error msg_no_images), w')"
    using assms(2-4) by (auto simp: try_block_def Let_def)
  then have "generateImage (Suc n) env w s model input apiKey =
      Some (Inr (Failure (failure_text (new_Error msg_no_images)) None), w', s)"
    by (rule generateImage_plain [OF assms(1)]) (rule own_errors_no_signal)+
  then show ?thesis
    by (simp add: failure_text_new_Error)
qed

theorem no_images_is_a_failure_witness:
  "generateImage (Suc 0)
       (policy_env (answering_call \<lparr>data = JObj [(js ''images'', JArr [])],
                                     requestId = JStr (js ''req-2'')\<rparr>) no_parse)
       [] two_keys example_model example_input (js ''key-a'') =
     Some (Inr (Failure msg_no_images None), [js ''key-a''], two_keys) \<and>
   generateImage (Suc 0)
       (policy_env (answering_call \<lparr>data = JObj [(js ''seed'', JNum (Fin 7))],
                                     requestId = JStr (js ''req-3'')\<rparr>) no_parse)
       [] two_keys example_model example_input (js ''key-a'') =
     Some (Inr (Failure msg_no_images None), [js ''key-a''], two_keys)"
proof -
  have key: "js ''key-a'' \<noteq> []"
    by (simp add: js_def)
  have empty: "subscribe (policy_env (answering_call \<lparr>data = JObj [(js ''images'', JArr [])],
        requestId = JStr (js ''req-2'')\<rparr>) no_parse) [] (model_id example_model) example_input
        (js ''key-a'') =
      (Inr \<lparr>data = JObj [(js ''images'', JArr [])], requestId = JStr (js ''req-2'')\<rparr>,
       [js ''key-a''])"
    by (simp add: policy_env_def answering_call_def)
  have missing: "subscribe (policy_env (answering_call \<lparr>data = JObj [(js ''seed'', JNum (Fin 7))],
        requestId = JStr (js ''req-3'')\<rparr>) no_parse) [] (model_id example_model) example_input
        (js ''key-a'') =
      (Inr \<lparr>data = JObj [(js ''seed'', JNum (Fin 7))], requestId = JStr (js ''req-3'')\<rparr>,
       [js ''key-a''])"
    by (simp add: policy_env_def answering_call_def)
  have "generateImage (Suc 0)
       (policy_env (answering_call \<lparr>data = JObj [(js ''images'', JArr [])],
                                     requestId = JStr (js ''req-2'')\<rparr>) no_parse)
       [] two_keys example_model example_input (js ''key-a'') =
     Some (Inr (Failure msg_no_images None), [js ''key-a''], two_keys)"
    by (rule no_images_is_a_failure [OF example_prompt_ok key empty])
       (simp add: optional_prop_def js_def)
  moreover have "generateImage (Suc 0)
       (policy_env (answering_call \<lparr>data = JObj [(js ''seed'', JNum (Fin 7))],
                                     requestId = JStr (js ''req-3'')\<rparr>) no_parse)
       [] two_keys example_model example_input (js ''key-a'') =
     Some (Inr (Failure msg_no_images None), [js ''key-a''], two_keys)"
    by (rule no_images_is_a_failure [OF example_prompt_ok key missing])
       (simp add: optional_prop_def js_def)
  ultimately show ?thesis by simp
qed

section \<open>The credential of the retry\<close>

text \<open>
  C9. When a signal has matched and \<open>handleBalanceExhaustedError\<close> reports a switch,
  the retry is made with the string that \<open>localStorage\<close> then holds under
  \<open>fal-ai-active-key\<close>, or the empty string when there is none; nothing that
  \<open>handleBalanceExhaustedError\<close> returns is passed on. When the slot is empty, the
  retry fails the check of line 16 and the result is the plain \<open>Failure\<close> with the
  missing-key message and no \<open>errorCode\<close>.
\<close>

theorem retry_reads_active_key_slot:
  assumes "prompt_ok input"
    and "try_block env w model input apiKey = (Inl e, w')"
    and "signal_body e \<or> signal_message e \<or> signal_json env e"
    and "handleBalanceExhaustedError env s = (True, s')"
  shows "generateImage (Suc n) env w s model input apiKey =
           generateImage n env w' s' model input
             (case getItem_active_key env s' of None \<Rightarrow> [] | Some k \<Rightarrow> k)
         \<and> (getItem_active_key env s' = None \<or> getItem_active_key env s' = Some [] \<longrightarrow>
              generateImage (Suc (Suc n)) env w s model input apiKey =
                Some (Inr (Failure msg_missing_key None), w', s'))"
proof -
  have step: "generateImage (Suc k) env w s model input apiKey =
      generateImage k env w' s' model input (active_key_or_empty env s')" for k
    using generateImage_rotates [OF assms(1-3), of k s] assms(4)
    by (simp add: rotate_and_retry_def)
  have "generateImage (Suc (Suc n)) env w s model input apiKey =
      Some (Inr (Failure msg_missing_key None), w', s')"
    if "getItem_active_key env s' = None \<or> getItem_active_key env s' = Some []"
  proof -
    from that have "active_key_or_empty env s' = []"
      by (auto simp: active_key_or_empty_def)
    with step [of "Suc n"] show ?thesis
      by (simp add: generateImage_no_key [OF assms(1)])
  qed
  with step [of n] show ?thesis
    by (simp add: active_key_or_empty_def)
qed

theorem retry_reads_active_key_slot_witness:
  "generateImage (Suc (Suc 0)) forgetful_env [] 1 example_model example_input (js ''key-b'') =
     Some (Inr (Failure msg_missing_key None), [js ''key-b''], 0)"
proof -
  have failed: "try_block forgetful_env [] example_model example_input (js ''key-b'') =
      (Inl balance_error, [js ''key-b''])"
    by (simp add: run_defs example_defs)
  have matched: "signal_body balance_error \<or> signal_message balance_error \<or>
      signal_json forgetful_env balance_error"
    by (simp add: run_defs example_defs)
  have switched: "handleBalanceExhaustedError forgetful_env 1 = (True, 0)"
    by (simp add: forgetful_env_def)
  have slot: "getItem_active_key forgetful_env 0 = None"
    by (simp add: forgetful_env_def)
  from retry_reads_active_key_slot [OF example_prompt_ok failed matched switched, of 0] slot
  show ?thesis by simp
qed

section \<open>Persisting the images\<close>

lemma catch_block_saved: "saved (snd (catch_block x p)) = saved p"
  by (induction x p rule: catch_block.induct) simp_all

lemma records_images:
  "map output_images
     (map (\<lambda>(index, img). newGeneration penv model pv allParameters response index img)
        (enumerate n imgs)) = map (\<lambda>img. [img]) imgs"
  by (induction imgs arbitrary: n) (simp_all add: newGeneration_def)

lemma save_all_saved:
  "images response = JArr imgs \<Longrightarrow>
   saved (snd (save_all penv model allParameters response p)) =
     saved p @ map (\<lambda>(index, img).
                      newGeneration penv model (prompt p) allParameters response index img)
                   (enumerate 0 imgs)"
  by (simp add: save_all_def Let_def)

lemma handleGenerate_success:
  assumes "js_trim (prompt p) \<noteq> []"
    and "handleGenerate_parameters (StringToNumber penv) (parameters p) (prompt p) =
           Inr allParameters"
    and "lookupApiKey penv (storage p) = (Inr apiKey, s1)"
    and "apiKey \<noteq> []"
    and "generateImage fuel (dispatcher penv) (world p) s1 model allParameters apiKey =
           Some (Inr response, w', s')"
    and "response = Success imgs sd rid tms nsfw"
  shows "handleGenerate fuel penv model p =
           (case save_all penv model allParameters response
                   (p\<lparr>isGenerating := True, world := w', storage := s', result_value := imgs\<rparr>) of
              (None, q) \<Rightarrow> Some (None, q\<lparr>isGenerating := False\<rparr>)
            | (Some x, q) \<Rightarrow>
                Some (fst (catch_block x q), (snd (catch_block x q))\<lparr>isGenerating := False\<rparr>))"
  using assms
  by (simp add: handleGenerate_def try_generate_def split: prod.splits option.splits)


lemma handleGenerate_saved:
  assumes "js_trim (prompt p) \<noteq> []"
    and "handleGenerate_parameters (StringToNumber penv) (parameters p) (prompt p) =
           Inr allParameters"
    and "lookupApiKey penv (storage p) = (Inr apiKey, s1)"
    and "apiKey \<noteq> []"
    and "generateImage fuel (dispatcher penv) (world p) s1 model allParameters apiKey =
           Some (Inr (Success (JArr imgs) sd rid tms nsfw), w', s')"
  shows "\<exists>x p'. handleGenerate fuel penv model p = Some (x, p') \<and>
           saved p' = saved p @
             map (\<lambda>(index, img).
                    newGeneration penv model (prompt p) allParameters
                      (Success (JArr imgs) sd rid tms nsfw) index img)
                 (enumerate 0 imgs)"
proof -
  let ?r = "Success (JArr imgs) sd rid tms nsfw"
  let ?q = "p\<lparr>isGenerating := True, world := w', storage := s', result_value := JArr imgs\<rparr>"
  obtain y q where sa: "save_all penv model allParameters ?r ?q = (y, q)"
    by (cases "save_all penv model allParameters ?r ?q")
  have sq: "saved q = saved p @
             map (\<lambda>(index, img). newGeneration penv model (prompt p) allParameters ?r index img)
                 (enumerate 0 imgs)"
    using save_all_saved [of ?r imgs penv model allParameters ?q] sa by simp
  have hg: "handleGenerate fuel penv model p =
      (case (y, q) of
         (None, q) \<Rightarrow> Some (None, q\<lparr>isGenerating := False\<rparr>)
       | (Some x, q) \<Rightarrow>
           Some (fst (catch_block x q), (snd (catch_block x q))\<lparr>isGenerating := False\<rparr>))"
    using handleGenerate_success [OF assms refl] sa by simp
  show ?thesis
  proof (cases y)
    case None
    with hg sq show ?thesis by simp
  next
    case (Some x)
    with hg sq show ?thesis by (simp add: catch_block_saved)
  qed
qed

lemmas page_defs =
  handleGenerate_def try_generate_def save_all_def newGeneration_def
  handleGenerate_parameters_def ensureValidNumImages_def js_trim_def is_js_whitespace_def
  example_page_env_def example_page_def save_ok_def save_first_fails_def
  List.map_filter_simps enumerate_simps

lemma example_page_facts:
  "js_trim (prompt example_page) \<noteq> []"
  "handleGenerate_parameters (StringToNumber (example_page_env save))
     (parameters example_page) (prompt example_page) = Inr example_input"
  "lookupApiKey (example_page_env save) (storage example_page) =
     (Inr (js ''key-c''), storage example_page)"
  "js ''key-c'' \<noteq> []"
  "generateImage (Suc 0) (dispatcher (example_page_env save)) (world example_page)
     (storage example_page) example_model example_input (js ''key-c'') =
   Some (Inr (Success (JArr [JStr (js ''img1''), JStr (js ''img2'')]) (JNum (Fin 7))
                (JStr (js ''req-1'')) (JObj []) (JArr [])),
         [js ''key-c''], storage example_page)"
  by (simp_all add: page_defs run_defs example_defs)

text \<open>
  C7. When the generation succeeds with a list of N images, \<open>handleGenerate\<close> passes
  N records to \<open>saveGeneration\<close>, one for each image in the order of the list, and
  the \<open>images\<close> of each record is the list of that one image.
\<close>

theorem one_record_per_image:
  assumes "js_trim (prompt p) \<noteq> []"
    and "handleGenerate_parameters (StringToNumber penv) (parameters p) (prompt p) =
           Inr allParameters"
    and "lookupApiKey penv (storage p) = (Inr apiKey, s1)"
    and "apiKey \<noteq> []"
    and "generateImage fuel (dispatcher penv) (world p) s1 model allParameters apiKey =
           Some (Inr (Success (JArr imgs) sd rid tms nsfw), w', s')"
  shows "\<exists>x p'. handleGenerate fuel penv model p = Some (x, p') \<and>
           length (saved p') = length (saved p) + length imgs \<and>
           map output_images (saved p') =
             map output_images (saved p) @ map (\<lambda>img. [img]) imgs"
proof -
  from handleGenerate_saved [OF assms] obtain x p' where
    h: "handleGenerate fuel penv model p = Some (x, p')"
    and s: "saved p' = saved p @
             map (\<lambda>(index, img).
                    newGeneration penv model (prompt p) allParameters
                      (Success (JArr imgs) sd rid tms nsfw) index img)
                 (enumerate 0 imgs)"
    by blast
  from s have "map output_images (saved p') =
      map output_images (saved p) @ map (\<lambda>img. [img]) imgs"
    by (simp only: map_append records_images)
  moreover from s have "length (saved p') = length (saved p) + length imgs"
    by simp
  ultimately show ?thesis using h by blast
qed

theorem one_record_per_image_witness:
  "map_option (\<lambda>(x, p'). map output_images (saved p'))
     (handleGenerate (Suc 0) (example_page_env save_ok) example_model example_page) =
   Some [[JStr (js ''img1'')], [JStr (js ''img2'')]]"
proof -
  from one_record_per_image [OF example_page_facts, of save_ok]
  obtain x p' where
    "handleGenerate (Suc 0) (example_page_env save_ok) example_model example_page = Some (x, p')"
    and "map output_images (saved p') =
      map output_images (saved example_page) @
      map (\<lambda>img. [img]) [JStr (js ''img1''), JStr (js ''img2'')]"
    by blast
  then show ?thesis
    by (simp add: example_page_def)
qed




end
